theory Spec2Isabelle
  imports Main "HOL-Library.Finite_Map" "HOL-Library.Word"
begin

section \<open>The multi-instance NAM module (src/wasm/nam-multi-instance.cpp)\<close>

text \<open>
  The translation unit keeps five globals (the instance map, the next instance id, the
  sample rate, the maximum buffer size and the fast-tanh flag) and exports fourteen C
  functions over them. Each exported function is embedded as a function that takes the
  globals as a record and returns them updated.

  The C++ \<open>int\<close> is a 32-bit two's complement integer: it is embedded as an \<open>int\<close> of HOL
  and the wrap-around of the target's 32-bit addition is written out (\<open>wrap32\<close>). A
  \<open>float\<close> and a \<open>double\<close> are embedded as their IEEE-754 bit patterns, which is all the
  module does with them: it stores them, hands them on and copies them.
\<close>

subsection \<open>Machine values\<close>

type_synonym float = "32 word"
type_synonym double = "64 word"

definition wrap32 :: "int \<Rightarrow> int" where
  "wrap32 x = (x + 2147483648) mod 4294967296 - 2147483648"

text \<open>The literals \<open>48000.0f\<close> and \<open>0.0f\<close> of the source, as bit patterns.\<close>

definition float_48000 :: float where
  "float_48000 = 0x473B8000"

definition float_zero :: float where
  "float_zero = 0"

subsection \<open>The collaborator: NAM/dsp.h, NAM/get_dsp.h and the platform\<close>

text \<open>
  A call into the engine library either returns or throws. An engine method that
  mutates its object gives the object after the call in both cases.
\<close>

datatype 'a result = Returns 'a | Throws

text \<open>
  The headers of \<open>nam::DSP\<close> and \<open>nam::get_dsp\<close> are not part of the translation unit, so
  the engine is a parameter of every function that calls it: \<open>'e\<close> is the state of one
  engine object, and the record holds the library's functions.
  \<^item> \<open>get_dsp\<close> builds an engine from the JSON text: it throws, returns a null pointer
    (\<open>Returns None\<close>) or returns an engine;
  \<^item> \<open>dsp_Reset\<close>, \<open>dsp_prewarm\<close> and \<open>dsp_process\<close> are the methods \<open>Reset\<close>, \<open>prewarm\<close>
    and \<open>process\<close>; \<open>dsp_process\<close> gets the contents of the input and of the output
    block and gives the output block after the call;
  \<^item> \<open>dsp_HasLoudness\<close> and \<open>dsp_GetLoudness\<close> are the const accessors, which return a
    value (the module calls \<open>GetLoudness()\<close> only behind \<open>HasLoudness()\<close>);
  \<^item> \<open>float_to_double\<close> is the implicit conversion where a \<open>float\<close> is passed for the
    \<open>double\<close> parameter of \<open>Reset\<close>, \<open>double_to_float\<close> is \<open>static_cast<float>\<close>.
\<close>

record 'e nam_api =
  get_dsp :: "string \<Rightarrow> 'e option result"
  dsp_Reset :: "'e \<Rightarrow> double \<Rightarrow> int \<Rightarrow> unit result \<times> 'e"
  dsp_prewarm :: "'e \<Rightarrow> unit result \<times> 'e"
  dsp_process :: "'e \<Rightarrow> float list \<Rightarrow> float list \<Rightarrow> int \<Rightarrow> unit result \<times> 'e \<times> float list"
  dsp_HasLoudness :: "'e \<Rightarrow> bool"
  dsp_GetLoudness :: "'e \<Rightarrow> double"
  float_to_double :: "float \<Rightarrow> double"
  double_to_float :: "double \<Rightarrow> float"

subsection \<open>The globals\<close>

text \<open>
  \<open>instances\<close> is the \<open>std::map<int, std::unique_ptr<nam::DSP>>\<close>: a finite map whose
  value \<open>None\<close> is the null pointer. \<open>enable_fast_tanh_calls\<close> is not a variable of the
  source: it counts the calls of \<open>nam::activations::Activation::enable_fast_tanh()\<close>,
  whose effect is on the library's own globals.
\<close>

record 'e globals =
  instances :: "(int, 'e option) fmap"
  nextInstanceId :: int
  sampleRate :: float
  maxBufferSize :: int
  fastTanhEnabled :: bool
  enable_fast_tanh_calls :: nat

definition nam_init :: "'e globals" where
  "nam_init = \<lparr> instances = fmempty, nextInstanceId = 0, sampleRate = float_48000,
     maxBufferSize = 128, fastTanhEnabled = False, enable_fast_tanh_calls = 0 \<rparr>"

subsection \<open>Instances\<close>

text \<open>
  \<open>int id = nextInstanceId++; instances[id] = nullptr; return id;\<close> The increment of the
  \<open>int\<close> at its maximum is a signed overflow, undefined in C++; the module is built for
  WebAssembly, whose 32-bit addition wraps, and the model wraps with it. \<open>operator[]\<close>
  inserts the key when it is not in the map and assigns to the entry when it is.
\<close>

definition nam_createInstance :: "'e globals \<Rightarrow> int \<times> 'e globals" where
  "nam_createInstance s =
     (let iid = nextInstanceId s;
          s1 = s\<lparr>nextInstanceId := wrap32 (iid + 1)\<rparr>;
          s2 = s1\<lparr>instances := fmupd iid None (instances s1)\<rparr>
      in (iid, s2))"

definition nam_destroyInstance :: "int \<Rightarrow> 'e globals \<Rightarrow> 'e globals" where
  "nam_destroyInstance iid s =
     (case fmlookup (instances s) iid of
        Some dsp \<Rightarrow> s\<lparr>instances := fmdrop iid (instances s)\<rparr>
      | None \<Rightarrow> s)"

text \<open>\<open>static_cast<int>(instances.size())\<close>\<close>

definition nam_getInstanceCount :: "'e globals \<Rightarrow> int" where
  "nam_getInstanceCount s = wrap32 (int (fcard (fmdom (instances s))))"

subsection \<open>Loading and unloading\<close>

text \<open>
  The body of the \<open>try\<close> block, from \<open>nam::get_dsp\<close> on. It gives the engine to store, or
  \<open>None\<close> when the block is left without storing one: by an exception, which the
  \<open>catch (...)\<close> swallows, or because \<open>get_dsp\<close> returned a null pointer.
\<close>

definition build_dsp :: "'e nam_api \<Rightarrow> string \<Rightarrow> float \<Rightarrow> int \<Rightarrow> 'e option" where
  "build_dsp api jsonStr rate bufSize =
     (case get_dsp api jsonStr of
        Throws \<Rightarrow> None
      | Returns None \<Rightarrow> None
      | Returns (Some dsp) \<Rightarrow>
          (case dsp_Reset api dsp (float_to_double api rate) bufSize of
             (Throws, dsp1) \<Rightarrow> None
           | (Returns u, dsp1) \<Rightarrow>
               (case dsp_prewarm api dsp1 of
                  (Throws, dsp2) \<Rightarrow> None
                | (Returns v, dsp2) \<Rightarrow> Some dsp2)))"

definition nam_loadModel :: "'e nam_api \<Rightarrow> int \<Rightarrow> string \<Rightarrow> 'e globals \<Rightarrow> bool \<times> 'e globals" where
  "nam_loadModel api iid jsonStr s =
     (case fmlookup (instances s) iid of
        None \<Rightarrow> (False, s)
      | Some old \<Rightarrow>
          (let s1 = (if \<not> fastTanhEnabled s
                     then s\<lparr>enable_fast_tanh_calls := Suc (enable_fast_tanh_calls s),
                            fastTanhEnabled := True\<rparr>
                     else s)
           in case build_dsp api jsonStr (sampleRate s1) (maxBufferSize s1) of
                Some dsp \<Rightarrow> (True, s1\<lparr>instances := fmupd iid (Some dsp) (instances s1)\<rparr>)
              | None \<Rightarrow> (False, s1)))"

definition nam_unloadModel :: "int \<Rightarrow> 'e globals \<Rightarrow> 'e globals" where
  "nam_unloadModel iid s =
     (case fmlookup (instances s) iid of
        Some dsp \<Rightarrow> s\<lparr>instances := fmupd iid None (instances s)\<rparr>
      | None \<Rightarrow> s)"

definition nam_hasModel :: "int \<Rightarrow> 'e globals \<Rightarrow> bool" where
  "nam_hasModel iid s =
     (case fmlookup (instances s) iid of
        Some dsp \<Rightarrow> dsp \<noteq> None
      | None \<Rightarrow> False)"

subsection \<open>Processing\<close>

text \<open>
  \<open>std::memcpy(output, input, numFrames * sizeof(float))\<close> on two blocks that do not
  overlap, given by their contents. The copy is defined when both blocks hold the
  \<open>numFrames\<close> samples; otherwise it reads or writes outside a block and the behaviour of
  the program is undefined (\<open>None\<close>). A block lies in the memory of the module, so for
  blocks that hold \<open>numFrames\<close> samples the byte count does not overflow \<open>size_t\<close>, and the
  copy is modelled sample by sample.
\<close>

definition memcpy :: "float list \<Rightarrow> float list \<Rightarrow> int \<Rightarrow> float list option" where
  "memcpy output input numFrames =
     (if 0 \<le> numFrames \<and> nat numFrames \<le> length input \<and> nat numFrames \<le> length output
      then Some (take (nat numFrames) input @ drop (nat numFrames) output)
      else None)"

text \<open>
  The result is how the call ended, the globals and the output block after it; \<open>None\<close> is
  the undefined behaviour of a copy outside the blocks.
\<close>

definition nam_process ::
  "'e nam_api \<Rightarrow> int \<Rightarrow> float list \<Rightarrow> float list \<Rightarrow> int \<Rightarrow> 'e globals
     \<Rightarrow> (unit result \<times> 'e globals \<times> float list) option" where
  "nam_process api iid input output numFrames s =
     (case fmlookup (instances s) iid of
        Some (Some dsp) \<Rightarrow>
          (case dsp_process api dsp input output numFrames of
             (r, dsp1, output1) \<Rightarrow>
               Some (r, s\<lparr>instances := fmupd iid (Some dsp1) (instances s)\<rparr>, output1))
      | _ \<Rightarrow>
          (case memcpy output input numFrames of
             Some output1 \<Rightarrow> Some (Returns (), s, output1)
           | None \<Rightarrow> None))"

subsection \<open>Sample rate and buffer size\<close>

text \<open>
  \<open>for (auto& [id, dsp] : instances) if (dsp) dsp->Reset(rate, size);\<close> over the keys
  still to visit, in the order of the map. An exception of \<open>Reset\<close> leaves the loop: the
  engines behind it are not visited.
\<close>

fun reset_loop ::
  "'e nam_api \<Rightarrow> double \<Rightarrow> int \<Rightarrow> int list \<Rightarrow> (int, 'e option) fmap
     \<Rightarrow> unit result \<times> (int, 'e option) fmap" where
  "reset_loop api rate bufSize [] m = (Returns (), m)"
| "reset_loop api rate bufSize (iid # ids) m =
     (case fmlookup m iid of
        Some (Some dsp) \<Rightarrow>
          (case dsp_Reset api dsp rate bufSize of
             (Returns u, dsp1) \<Rightarrow> reset_loop api rate bufSize ids (fmupd iid (Some dsp1) m)
           | (Throws, dsp1) \<Rightarrow> (Throws, fmupd iid (Some dsp1) m))
      | _ \<Rightarrow> reset_loop api rate bufSize ids m)"

definition reset_all :: "'e nam_api \<Rightarrow> double \<Rightarrow> int \<Rightarrow> 'e globals \<Rightarrow> unit result \<times> 'e globals" where
  "reset_all api rate bufSize s =
     (case reset_loop api rate bufSize (sorted_list_of_fset (fmdom (instances s))) (instances s) of
        (r, m) \<Rightarrow> (r, s\<lparr>instances := m\<rparr>))"

definition nam_setSampleRate :: "'e nam_api \<Rightarrow> float \<Rightarrow> 'e globals \<Rightarrow> unit result \<times> 'e globals" where
  "nam_setSampleRate api rate s =
     (let s1 = s\<lparr>sampleRate := rate\<rparr>
      in reset_all api (float_to_double api rate) (maxBufferSize s1) s1)"

definition nam_getSampleRate :: "'e globals \<Rightarrow> float" where
  "nam_getSampleRate s = sampleRate s"

definition nam_setMaxBufferSize :: "'e nam_api \<Rightarrow> int \<Rightarrow> 'e globals \<Rightarrow> unit result \<times> 'e globals" where
  "nam_setMaxBufferSize api bufSize s =
     (let s1 = s\<lparr>maxBufferSize := bufSize\<rparr>
      in reset_all api (float_to_double api (sampleRate s1)) (maxBufferSize s1) s1)"

definition nam_getMaxBufferSize :: "'e globals \<Rightarrow> int" where
  "nam_getMaxBufferSize s = maxBufferSize s"

subsection \<open>Loudness and reset\<close>

definition nam_getModelLoudness :: "'e nam_api \<Rightarrow> int \<Rightarrow> 'e globals \<Rightarrow> float" where
  "nam_getModelLoudness api iid s =
     (case fmlookup (instances s) iid of
        Some (Some dsp) \<Rightarrow>
          (if dsp_HasLoudness api dsp then double_to_float api (dsp_GetLoudness api dsp)
           else float_zero)
      | _ \<Rightarrow> float_zero)"

definition nam_hasModelLoudness :: "'e nam_api \<Rightarrow> int \<Rightarrow> 'e globals \<Rightarrow> bool" where
  "nam_hasModelLoudness api iid s =
     (case fmlookup (instances s) iid of
        Some (Some dsp) \<Rightarrow> dsp_HasLoudness api dsp
      | _ \<Rightarrow> False)"

definition nam_reset :: "'e nam_api \<Rightarrow> int \<Rightarrow> 'e globals \<Rightarrow> unit result \<times> 'e globals" where
  "nam_reset api iid s =
     (case fmlookup (instances s) iid of
        Some (Some dsp) \<Rightarrow>
          (case dsp_Reset api dsp (float_to_double api (sampleRate s)) (maxBufferSize s) of
             (r, dsp1) \<Rightarrow> (r, s\<lparr>instances := fmupd iid (Some dsp1) (instances s)\<rparr>))
      | _ \<Rightarrow> (Returns (), s))"

subsection \<open>Sequences of calls from the host\<close>

text \<open>
  The host drives the module through its exported functions, one call after the other.
  A call and what it gives back are values, so that a property of every sequence of
  operations is a property of \<open>run\<close>.
\<close>

datatype call =
    CreateInstance
  | DestroyInstance int
  | GetInstanceCount
  | LoadModel int string
  | UnloadModel int
  | HasModel int
  | Process int "float list" "float list" int
  | SetSampleRate float
  | GetSampleRate
  | SetMaxBufferSize int
  | GetMaxBufferSize
  | GetModelLoudness int
  | HasModelLoudness int
  | Reset int

datatype reply =
    RetInt int
  | RetBool bool
  | RetFloat float
  | RetVoid "unit result"
  | RetBlock "unit result" "float list"

fun exec_call :: "'e nam_api \<Rightarrow> call \<Rightarrow> 'e globals \<Rightarrow> (reply \<times> 'e globals) option" where
  "exec_call api CreateInstance s =
     (case nam_createInstance s of (iid, s1) \<Rightarrow> Some (RetInt iid, s1))"
| "exec_call api (DestroyInstance iid) s = Some (RetVoid (Returns ()), nam_destroyInstance iid s)"
| "exec_call api GetInstanceCount s = Some (RetInt (nam_getInstanceCount s), s)"
| "exec_call api (LoadModel iid jsonStr) s =
     (case nam_loadModel api iid jsonStr s of (ok, s1) \<Rightarrow> Some (RetBool ok, s1))"
| "exec_call api (UnloadModel iid) s = Some (RetVoid (Returns ()), nam_unloadModel iid s)"
| "exec_call api (HasModel iid) s = Some (RetBool (nam_hasModel iid s), s)"
| "exec_call api (Process iid input output numFrames) s =
     (case nam_process api iid input output numFrames s of
        Some (r, s1, output1) \<Rightarrow> Some (RetBlock r output1, s1)
      | None \<Rightarrow> None)"
| "exec_call api (SetSampleRate rate) s =
     (case nam_setSampleRate api rate s of (r, s1) \<Rightarrow> Some (RetVoid r, s1))"
| "exec_call api GetSampleRate s = Some (RetFloat (nam_getSampleRate s), s)"
| "exec_call api (SetMaxBufferSize bufSize) s =
     (case nam_setMaxBufferSize api bufSize s of (r, s1) \<Rightarrow> Some (RetVoid r, s1))"
| "exec_call api GetMaxBufferSize s = Some (RetInt (nam_getMaxBufferSize s), s)"
| "exec_call api (GetModelLoudness iid) s = Some (RetFloat (nam_getModelLoudness api iid s), s)"
| "exec_call api (HasModelLoudness iid) s = Some (RetBool (nam_hasModelLoudness api iid s), s)"
| "exec_call api (Reset iid) s =
     (case nam_reset api iid s of (r, s1) \<Rightarrow> Some (RetVoid r, s1))"

fun run :: "'e nam_api \<Rightarrow> call list \<Rightarrow> 'e globals \<Rightarrow> (reply list \<times> 'e globals) option" where
  "run api [] s = Some ([], s)"
| "run api (c # cs) s =
     (case exec_call api c s of
        None \<Rightarrow> None
      | Some (r, s1) \<Rightarrow>
          (case run api cs s1 of
             None \<Rightarrow> None
           | Some (rs, s2) \<Rightarrow> Some (r # rs, s2)))"

text \<open>The blocks of a \<open>Process\<close> call hold the frames it asks for.\<close>

fun block_ok :: "call \<Rightarrow> bool" where
  "block_ok (Process iid input output numFrames) =
     (0 \<le> numFrames \<and> nat numFrames \<le> length input \<and> nat numFrames \<le> length output)"
| "block_ok c = True"

text \<open>The handles that the \<open>CreateInstance\<close> calls of a sequence returned, in order.\<close>

fun handles :: "call list \<Rightarrow> reply list \<Rightarrow> int list" where
  "handles (CreateInstance # cs) (RetInt h # rs) = h # handles cs rs"
| "handles (c # cs) (r # rs) = handles cs rs"
| "handles cs rs = []"

fun creates :: "call list \<Rightarrow> nat" where
  "creates [] = 0"
| "creates (CreateInstance # cs) = Suc (creates cs)"
| "creates (c # cs) = creates cs"

text \<open>
  The number of \<open>DestroyInstance\<close> calls of a sequence whose handle was in the map when
  the call was made.
\<close>

fun live_destroys :: "'e nam_api \<Rightarrow> call list \<Rightarrow> 'e globals \<Rightarrow> nat" where
  "live_destroys api [] s = 0"
| "live_destroys api (c # cs) s =
     (case c of
        DestroyInstance iid \<Rightarrow> (if iid |\<in>| fmdom (instances s) then 1 else 0)
      | _ \<Rightarrow> 0)
     + (case exec_call api c s of
          Some (r, s1) \<Rightarrow> live_destroys api cs s1
        | None \<Rightarrow> 0)"

text \<open>The handles issued and the globals reached when a sequence runs on the fresh module.\<close>

definition issued :: "'e nam_api \<Rightarrow> call list \<Rightarrow> int list option" where
  "issued api cs =
     (case run api cs nam_init of
        Some (rs, s) \<Rightarrow> Some (handles cs rs)
      | None \<Rightarrow> None)"

definition reached :: "'e nam_api \<Rightarrow> call list \<Rightarrow> 'e globals option" where
  "reached api cs =
     (case run api cs nam_init of
        Some (rs, s) \<Rightarrow> Some s
      | None \<Rightarrow> None)"

text \<open>
  \<open>churn k h\<close> is \<open>k\<close> rounds of creating an instance and destroying it at once, for a
  module whose next id is \<open>h\<close>.
\<close>

fun churn :: "nat \<Rightarrow> int \<Rightarrow> call list" where
  "churn 0 h = []"
| "churn (Suc k) h = CreateInstance # DestroyInstance h # churn k (wrap32 (h + 1))"

text \<open>
  What an operation on another instance must keep of the instance \<open>h\<close> and of the
  configuration: the entry of \<open>h\<close> in the map (there or not, and its engine), the sample
  rate and the maximum buffer size.
\<close>

definition untouched :: "int \<Rightarrow> 'e globals \<Rightarrow> 'e globals \<Rightarrow> bool" where
  "untouched h s s1 =
     (fmlookup (instances s1) h = fmlookup (instances s) h
      \<and> sampleRate s1 = sampleRate s
      \<and> maxBufferSize s1 = maxBufferSize s)"

subsection \<open>A small engine library to run the module with\<close>

text \<open>
  An engine that records the configuration of its last \<open>Reset\<close> and whether it was
  prewarmed. The description \<open>''throw''\<close> makes the factory throw, \<open>''null''\<close> makes it
  return a null pointer, \<open>''loud''\<close> builds an engine with loudness metadata, any other
  text one without. \<open>Reset\<close> throws on a negative buffer size. The two conversions only
  move the bit pattern.
\<close>

record demo_dsp =
  dsp_rate :: double
  dsp_size :: int
  dsp_warm :: bool
  dsp_loudness :: "double option"

definition demo_api :: "demo_dsp nam_api" where
  "demo_api = \<lparr>
     get_dsp = (\<lambda>jsonStr.
       if jsonStr = ''throw'' then Throws
       else if jsonStr = ''null'' then Returns None
       else Returns (Some \<lparr> dsp_rate = 0, dsp_size = 0, dsp_warm = False,
              dsp_loudness = (if jsonStr = ''loud'' then Some 0xC032000000000000 else None) \<rparr>)),
     dsp_Reset = (\<lambda>dsp rate bufSize.
       if bufSize < 0 then (Throws, dsp) else (Returns (), dsp\<lparr>dsp_rate := rate, dsp_size := bufSize\<rparr>)),
     dsp_prewarm = (\<lambda>dsp. (Returns (), dsp\<lparr>dsp_warm := True\<rparr>)),
     dsp_process = (\<lambda>dsp input output numFrames.
       (Returns (), dsp, replicate (nat numFrames) 0 @ drop (nat numFrames) output)),
     dsp_HasLoudness = (\<lambda>dsp. dsp_loudness dsp \<noteq> None),
     dsp_GetLoudness = (\<lambda>dsp. case dsp_loudness dsp of Some l \<Rightarrow> l | None \<Rightarrow> 0),
     float_to_double = (\<lambda>f. push_bit 32 (ucast f)),
     double_to_float = (\<lambda>d. ucast (drop_bit 32 d)) \<rparr>"

text \<open>
  States of the module run with that library: one empty instance 0; instance 0 loaded
  from \<open>''loud''\<close>; and instance 0 loaded from \<open>''plain''\<close> beside an empty instance 1.
\<close>

definition demo_empty :: "demo_dsp globals" where
  "demo_empty = snd (nam_createInstance nam_init)"

definition demo_loaded :: "demo_dsp globals" where
  "demo_loaded = snd (nam_loadModel demo_api 0 ''loud'' demo_empty)"

definition demo_two :: "demo_dsp globals" where
  "demo_two = snd (nam_createInstance (snd (nam_loadModel demo_api 0 ''plain'' demo_empty)))"

text \<open>The last state after \<open>nam_setSampleRate(44100.0f)\<close> and \<open>nam_setMaxBufferSize(256)\<close>.\<close>

definition demo_retuned :: "demo_dsp globals" where
  "demo_retuned =
     snd (nam_setMaxBufferSize demo_api 256 (snd (nam_setSampleRate demo_api 0x472C4400 demo_two)))"

section \<open>Properties\<close>

subsection \<open>Auxiliary facts\<close>

lemma wrap32_id: "- 2147483648 \<le> x \<Longrightarrow> x < 2147483648 \<Longrightarrow> wrap32 x = x"
  by (simp add: wrap32_def)

lemma fmupd_same_lookup: "fmlookup m k = Some v \<Longrightarrow> fmupd k v m = m"
  by (rule fmap_ext) auto

lemma fmdrop_absent: "fmlookup m k = None \<Longrightarrow> fmdrop k m = m"
  by (rule fmap_ext) auto

lemma demo_empty_eq:
  "demo_empty = \<lparr> instances = fmupd 0 None fmempty, nextInstanceId = 1,
     sampleRate = float_48000, maxBufferSize = 128, fastTanhEnabled = False,
     enable_fast_tanh_calls = 0 \<rparr>"
  by (simp add: demo_empty_def nam_createInstance_def nam_init_def Let_def wrap32_def)

lemma demo_loaded_eq:
  "demo_loaded = \<lparr> instances = fmupd 0 (Some \<lparr> dsp_rate = push_bit 32 (ucast float_48000),
       dsp_size = 128, dsp_warm = True, dsp_loudness = Some 0xC032000000000000 \<rparr>) fmempty,
     nextInstanceId = 1, sampleRate = float_48000, maxBufferSize = 128,
     fastTanhEnabled = True, enable_fast_tanh_calls = 1 \<rparr>"
  by (simp add: demo_loaded_def demo_empty_eq nam_loadModel_def build_dsp_def demo_api_def Let_def)

lemma demo_two_eq:
  "demo_two = \<lparr> instances = fmupd 1 None (fmupd 0 (Some \<lparr> dsp_rate = push_bit 32 (ucast float_48000),
       dsp_size = 128, dsp_warm = True, dsp_loudness = None \<rparr>) fmempty),
     nextInstanceId = 2, sampleRate = float_48000, maxBufferSize = 128,
     fastTanhEnabled = True, enable_fast_tanh_calls = 1 \<rparr>"
  by (simp add: demo_two_def demo_empty_eq nam_loadModel_def build_dsp_def demo_api_def Let_def
      nam_createInstance_def wrap32_def)

subsection \<open>Bypass\<close>

text \<open>
  C1. When the handle is not in the map, or is in the map with a null engine,
  \<open>nam_process\<close> on blocks that hold \<open>numFrames\<close> samples returns normally, leaves the
  globals as they are and leaves an output block whose first \<open>numFrames\<close> samples are the
  first \<open>numFrames\<close> input samples, in order (the rest of the block is not written).
\<close>

theorem process_bypass_identity:
  assumes "fmlookup (instances s) iid = None \<or> fmlookup (instances s) iid = Some None"
      and "0 \<le> numFrames"
      and "nat numFrames \<le> length input"
      and "nat numFrames \<le> length output"
  shows "nam_process api iid input output numFrames s
           = Some (Returns (), s, take (nat numFrames) input @ drop (nat numFrames) output)"
  using assms by (auto simp: nam_process_def memcpy_def)

text \<open>
  The block \<open>[1.0, -2.0, 0.5]\<close> through the fresh instance 0 and through the handle 9999
  that was never created.
\<close>

theorem process_bypass_identity_witness:
  "fmlookup (instances demo_empty) 0 = Some None
   \<and> fmlookup (instances demo_empty) 9999 = None
   \<and> nam_process demo_api 0 [0x3F800000, 0xC0000000, 0x3F000000] [0, 0, 0] 3 demo_empty
       = Some (Returns (), demo_empty, [0x3F800000, 0xC0000000, 0x3F000000])
   \<and> nam_process demo_api 9999 [0x3F800000, 0xC0000000, 0x3F000000] [0, 0, 0] 3 demo_empty
       = Some (Returns (), demo_empty, [0x3F800000, 0xC0000000, 0x3F000000])"
  using process_bypass_identity [of demo_empty 0 3
           "[0x3F800000, 0xC0000000, 0x3F000000]" "[0, 0, 0]" demo_api]
        process_bypass_identity [of demo_empty 9999 3
           "[0x3F800000, 0xC0000000, 0x3F000000]" "[0, 0, 0]" demo_api]
  by (simp add: demo_empty_eq)

subsection \<open>Loading\<close>

text \<open>
  C2. When \<open>nam_loadModel\<close> returns false (the handle is not in the map, \<open>get_dsp\<close> returned a
  null pointer, or \<open>get_dsp\<close>, \<open>Reset\<close> or \<open>prewarm\<close> threw), the instance map is the map of
  before the call: \<open>nam_hasModel\<close> answers the same for every handle, and an engine loaded
  before is still the one in the map.
\<close>

theorem loadModel_failure_keeps_engine:
  assumes "nam_loadModel api iid jsonStr s = (False, s1)"
  shows "instances s1 = instances s \<and> nam_hasModel h s1 = nam_hasModel h s"
  using assms
  by (auto simp: nam_loadModel_def nam_hasModel_def Let_def split: option.splits if_splits)

text \<open>
  A load that throws on instance 0 with an engine, and a load that gets a null pointer on
  the empty instance 0.
\<close>

theorem loadModel_failure_keeps_engine_witness:
  "nam_loadModel demo_api 0 ''throw'' demo_loaded = (False, demo_loaded)
   \<and> nam_loadModel demo_api 0 ''null'' demo_empty = (False, demo_empty\<lparr>enable_fast_tanh_calls := 1, fastTanhEnabled := True\<rparr>)
   \<and> nam_hasModel 0 demo_loaded
   \<and> \<not> nam_hasModel 0 (demo_empty\<lparr>enable_fast_tanh_calls := 1, fastTanhEnabled := True\<rparr>)"
proof -
  have a: "nam_loadModel demo_api 0 ''throw'' demo_loaded = (False, demo_loaded)"
    by (simp add: demo_loaded_eq nam_loadModel_def build_dsp_def demo_api_def)
  have b: "nam_loadModel demo_api 0 ''null'' demo_empty
             = (False, demo_empty\<lparr>enable_fast_tanh_calls := 1, fastTanhEnabled := True\<rparr>)"
    by (simp add: demo_empty_eq nam_loadModel_def build_dsp_def demo_api_def)
  have c: "nam_hasModel 0 demo_loaded" "\<not> nam_hasModel 0 demo_empty"
    by (simp_all add: demo_loaded_eq demo_empty_eq nam_hasModel_def)
  from loadModel_failure_keeps_engine [OF a, of 0] loadModel_failure_keeps_engine [OF b, of 0] a b c
  show ?thesis by simp
qed

text \<open>
  C7. After \<open>nam_unloadModel\<close> a handle that was in the map is still in the map, with a null
  engine; \<open>nam_hasModel\<close> is false for the handle, and \<open>nam_process\<close> on it copies the input
  to the output. On a handle that is not in the map, or has a null engine already, the
  call changes nothing. (The function returns the globals: it has no way to signal an
  error.)
\<close>

theorem unloadModel_leaves_empty_slot:
  "(fmlookup (instances s) iid \<noteq> None
      \<longrightarrow> fmlookup (instances (nam_unloadModel iid s)) iid = Some None)
   \<and> \<not> nam_hasModel iid (nam_unloadModel iid s)
   \<and> (0 \<le> numFrames \<and> nat numFrames \<le> length input \<and> nat numFrames \<le> length output
      \<longrightarrow> nam_process api iid input output numFrames (nam_unloadModel iid s)
            = Some (Returns (), nam_unloadModel iid s,
                    take (nat numFrames) input @ drop (nat numFrames) output))
   \<and> (fmlookup (instances s) iid = None \<or> fmlookup (instances s) iid = Some None
      \<longrightarrow> nam_unloadModel iid s = s)"
  by (auto simp: nam_unloadModel_def nam_hasModel_def nam_process_def memcpy_def fmupd_same_lookup
      split: option.splits)

theorem unloadModel_leaves_empty_slot_witness:
  "nam_hasModel 0 demo_loaded
   \<and> fmlookup (instances (nam_unloadModel 0 demo_loaded)) 0 = Some None
   \<and> \<not> nam_hasModel 0 (nam_unloadModel 0 demo_loaded)
   \<and> nam_process demo_api 0 [0x3F800000, 0xC0000000] [0, 0] 2 (nam_unloadModel 0 demo_loaded)
       = Some (Returns (), nam_unloadModel 0 demo_loaded, [0x3F800000, 0xC0000000])
   \<and> nam_unloadModel 0 demo_empty = demo_empty
   \<and> nam_unloadModel 5 demo_loaded = demo_loaded"
  using unloadModel_leaves_empty_slot [of demo_loaded 0 2 "[0x3F800000, 0xC0000000]" "[0, 0]" demo_api]
        unloadModel_leaves_empty_slot [of demo_empty 0 0 "[]" "[]" demo_api]
        unloadModel_leaves_empty_slot [of demo_loaded 5 0 "[]" "[]" demo_api]
  by (simp add: demo_loaded_eq demo_empty_eq nam_hasModel_def)

subsection \<open>Loudness\<close>

text \<open>
  C8. \<open>nam_getModelLoudness\<close> is \<open>0.0f\<close> and \<open>nam_hasModelLoudness\<close> is false when the handle
  is not in the map, when its engine is null and when the engine's \<open>HasLoudness()\<close> is
  false; when the engine's \<open>HasLoudness()\<close> is true, \<open>nam_hasModelLoudness\<close> is true and
  \<open>nam_getModelLoudness\<close> is the engine's \<open>GetLoudness()\<close>, cast to \<open>float\<close>. (Both functions
  return a plain value: they do not raise.)
\<close>

theorem loudness_queries:
  "(fmlookup (instances s) iid = None
      \<or> fmlookup (instances s) iid = Some None
      \<or> (\<exists>dsp. fmlookup (instances s) iid = Some (Some dsp) \<and> \<not> dsp_HasLoudness api dsp)
      \<longrightarrow> nam_getModelLoudness api iid s = float_zero \<and> \<not> nam_hasModelLoudness api iid s)
   \<and> (\<forall>dsp. fmlookup (instances s) iid = Some (Some dsp) \<and> dsp_HasLoudness api dsp
      \<longrightarrow> nam_hasModelLoudness api iid s
        \<and> nam_getModelLoudness api iid s = double_to_float api (dsp_GetLoudness api dsp))"
  by (auto simp: nam_getModelLoudness_def nam_hasModelLoudness_def)

text \<open>
  An unknown handle, an empty instance, an engine without loudness, and an engine whose
  loudness is -18.0.
\<close>

theorem loudness_queries_witness:
  "nam_getModelLoudness demo_api 9999 demo_loaded = 0 \<and> \<not> nam_hasModelLoudness demo_api 9999 demo_loaded
   \<and> nam_getModelLoudness demo_api 1 demo_two = 0 \<and> \<not> nam_hasModelLoudness demo_api 1 demo_two
   \<and> nam_getModelLoudness demo_api 0 demo_two = 0 \<and> \<not> nam_hasModelLoudness demo_api 0 demo_two
   \<and> nam_getModelLoudness demo_api 0 demo_loaded = 0xC0320000 \<and> nam_hasModelLoudness demo_api 0 demo_loaded"
  using loudness_queries [of demo_loaded 9999 demo_api]
        loudness_queries [of demo_two 1 demo_api]
        loudness_queries [of demo_two 0 demo_api]
        loudness_queries [of demo_loaded 0 demo_api]
  by (simp add: demo_loaded_eq demo_two_eq demo_api_def float_zero_def)

subsection \<open>Destruction\<close>

text \<open>
  C9. \<open>nam_destroyInstance\<close> on a handle that is not in the map leaves all the globals as
  they are, so destroying a handle twice gives the globals that destroying it once
  gives.
\<close>

theorem destroyInstance_idempotent:
  "(fmlookup (instances s) iid = None \<longrightarrow> nam_destroyInstance iid s = s)
   \<and> nam_destroyInstance iid (nam_destroyInstance iid s) = nam_destroyInstance iid s"
  by (auto simp: nam_destroyInstance_def split: option.splits)

theorem destroyInstance_idempotent_witness:
  "fmlookup (instances demo_loaded) 7 = None
   \<and> nam_destroyInstance 7 demo_loaded = demo_loaded
   \<and> fmlookup (instances (nam_destroyInstance 0 demo_loaded)) 0 = None
   \<and> nam_destroyInstance 0 (nam_destroyInstance 0 demo_loaded) = nam_destroyInstance 0 demo_loaded"
  using destroyInstance_idempotent [of demo_loaded 7] destroyInstance_idempotent [of demo_loaded 0]
  by (simp add: demo_loaded_eq nam_destroyInstance_def)

subsection \<open>Frame\<close>

text \<open>
  C10. \<open>nam_loadModel\<close>, \<open>nam_unloadModel\<close>, \<open>nam_reset\<close>, \<open>nam_destroyInstance\<close> and
  \<open>nam_process\<close> on the handle \<open>h\<close> leave the map entry of every other handle \<open>h'\<close> as it
  is (in the map or not, and the same engine), and leave the sample rate and the maximum
  buffer size as they are.
\<close>

theorem per_handle_frame:
  assumes "h' \<noteq> h"
  shows "untouched h' s (snd (nam_loadModel api h jsonStr s))
       \<and> untouched h' s (nam_unloadModel h s)
       \<and> untouched h' s (snd (nam_reset api h s))
       \<and> untouched h' s (nam_destroyInstance h s)
       \<and> (\<forall>r s1 output1. nam_process api h input output numFrames s = Some (r, s1, output1)
            \<longrightarrow> untouched h' s s1)"
  using assms
  by (auto simp: untouched_def nam_loadModel_def nam_unloadModel_def nam_reset_def
      nam_destroyInstance_def nam_process_def Let_def split: option.splits prod.splits)

theorem per_handle_frame_witness:
  "(0::int) \<noteq> 1
   \<and> untouched 0 demo_two (snd (nam_loadModel demo_api 1 ''loud'' demo_two))
   \<and> fst (nam_loadModel demo_api 1 ''loud'' demo_two)
   \<and> untouched 1 demo_two (nam_unloadModel 0 demo_two)
   \<and> untouched 1 demo_two (snd (nam_reset demo_api 0 demo_two))
   \<and> untouched 1 demo_two (nam_destroyInstance 0 demo_two)
   \<and> nam_process demo_api 0 [5] [7] 1 demo_two = Some (Returns (), demo_two, [0])
   \<and> untouched 1 demo_two demo_two"
proof -
  have p: "nam_process demo_api 0 [5] [7] 1 demo_two = Some (Returns (), demo_two, [0])"
    by (simp add: demo_two_eq nam_process_def demo_api_def fmupd_same_lookup)
  have l: "fst (nam_loadModel demo_api 1 ''loud'' demo_two)"
    by (simp add: demo_two_eq nam_loadModel_def build_dsp_def demo_api_def)
  from per_handle_frame [of 0 1 demo_two demo_api "''loud''" "[5]" "[7]" 1]
       per_handle_frame [of 1 0 demo_two demo_api "''loud''" "[5]" "[7]" 1] p l
  show ?thesis by simp
qed

subsection \<open>Configuration\<close>

text \<open>
  The loop over the map, when it is not left by an exception, has called \<open>Reset\<close> once on
  every engine of the map, and has changed nothing else.
\<close>

lemma reset_loop_returns:
  assumes "reset_loop api rate bufSize ids m = (Returns (), m1)" and "distinct ids"
  shows "fmlookup m1 k =
           (if k \<in> set ids
            then (case fmlookup m k of
                    Some (Some dsp) \<Rightarrow> Some (Some (snd (dsp_Reset api dsp rate bufSize)))
                  | other \<Rightarrow> other)
            else fmlookup m k)
         \<and> (\<forall>dsp. k \<in> set ids \<and> fmlookup m k = Some (Some dsp)
               \<longrightarrow> fst (dsp_Reset api dsp rate bufSize) = Returns ())"
  using assms
proof (induction ids arbitrary: m)
  case Nil
  then show ?case by simp
next
  case (Cons a ids)
  show ?case
  proof (cases "fmlookup m a")
    case None
    with Cons.prems have "reset_loop api rate bufSize ids m = (Returns (), m1)" by simp
    from Cons.IH [OF this] Cons.prems(2) None show ?thesis by auto
  next
    case (Some slot)
    show ?thesis
    proof (cases slot)
      case None
      with Some Cons.prems have "reset_loop api rate bufSize ids m = (Returns (), m1)" by simp
      from Cons.IH [OF this] Cons.prems(2) Some None show ?thesis by auto
    next
      case (Some dsp)
      obtain r dsp1 where call: "dsp_Reset api dsp rate bufSize = (r, dsp1)"
        by (cases "dsp_Reset api dsp rate bufSize")
      with Cons.prems \<open>fmlookup m a = Some slot\<close> Some
      have r: "r = Returns ()"
        and rest: "reset_loop api rate bufSize ids (fmupd a (Some dsp1) m) = (Returns (), m1)"
        by (cases r; simp)+
      from Cons.IH [OF rest] Cons.prems(2) call r \<open>fmlookup m a = Some slot\<close> Some
      show ?thesis by auto
    qed
  qed
qed

lemma reset_all_returns:
  assumes "reset_all api rate bufSize s = (Returns (), s1)"
  shows "fmlookup (instances s1) k =
           (case fmlookup (instances s) k of
              Some (Some dsp) \<Rightarrow> Some (Some (snd (dsp_Reset api dsp rate bufSize)))
            | other \<Rightarrow> other)"
    and "fmlookup (instances s) k = Some (Some dsp)
           \<Longrightarrow> fst (dsp_Reset api dsp rate bufSize) = Returns ()"
    and "s1 = s\<lparr>instances := instances s1\<rparr>"
proof -
  let ?ids = "sorted_list_of_fset (fmdom (instances s))"
  obtain m1 where loop: "reset_loop api rate bufSize ?ids (instances s) = (Returns (), m1)"
    and s1: "s1 = s\<lparr>instances := m1\<rparr>"
    using assms by (auto simp: reset_all_def split: prod.splits)
  have d: "distinct ?ids" by (simp add: sorted_list_of_fset.rep_eq)
  have mem: "k \<in> set ?ids \<longleftrightarrow> fmlookup (instances s) k \<noteq> None"
    by (simp add: fmlookup_dom_iff)
  from reset_loop_returns [OF loop d, of k] mem s1
  show "fmlookup (instances s1) k =
           (case fmlookup (instances s) k of
              Some (Some dsp) \<Rightarrow> Some (Some (snd (dsp_Reset api dsp rate bufSize)))
            | other \<Rightarrow> other)"
    by (auto split: option.splits)
  from reset_loop_returns [OF loop d, of k] mem
  show "fmlookup (instances s) k = Some (Some dsp)
           \<Longrightarrow> fst (dsp_Reset api dsp rate bufSize) = Returns ()"
    by auto
  from s1 show "s1 = s\<lparr>instances := instances s1\<rparr>" by simp
qed

lemma build_dsp_Some:
  "build_dsp api jsonStr rate bufSize = Some dsp2 \<longleftrightarrow>
     (\<exists>dsp0 dsp1. get_dsp api jsonStr = Returns (Some dsp0)
        \<and> dsp_Reset api dsp0 (float_to_double api rate) bufSize = (Returns (), dsp1)
        \<and> dsp_prewarm api dsp1 = (Returns (), dsp2))"
  by (auto simp: build_dsp_def split: result.splits option.splits prod.splits)

text \<open>
  C5. When \<open>nam_setSampleRate\<close> or \<open>nam_setMaxBufferSize\<close> returns, the new value is stored,
  the other one is kept, and every engine of the map is the engine of before after a
  \<open>Reset\<close> with the pair (sample rate, maximum buffer size) as it is now, which returned;
  null entries and absent handles are as before. An engine that a later \<open>nam_loadModel\<close>
  stores successfully is the engine from \<open>get_dsp\<close> after a \<open>Reset\<close> with the pair as it is at
  the time of the load, and \<open>prewarm\<close>: no other call is needed.
\<close>

theorem config_reaches_engines:
  "(nam_setSampleRate api rate s = (Returns (), s1) \<longrightarrow>
      sampleRate s1 = rate \<and> maxBufferSize s1 = maxBufferSize s
      \<and> (\<forall>iid. fmlookup (instances s1) iid =
            (case fmlookup (instances s) iid of
               Some (Some dsp) \<Rightarrow>
                 Some (Some (snd (dsp_Reset api dsp (float_to_double api (sampleRate s1)) (maxBufferSize s1))))
             | other \<Rightarrow> other))
      \<and> (\<forall>iid dsp. fmlookup (instances s) iid = Some (Some dsp) \<longrightarrow>
            fst (dsp_Reset api dsp (float_to_double api (sampleRate s1)) (maxBufferSize s1)) = Returns ()))
   \<and> (nam_setMaxBufferSize api bufSize s = (Returns (), s2) \<longrightarrow>
      sampleRate s2 = sampleRate s \<and> maxBufferSize s2 = bufSize
      \<and> (\<forall>iid. fmlookup (instances s2) iid =
            (case fmlookup (instances s) iid of
               Some (Some dsp) \<Rightarrow>
                 Some (Some (snd (dsp_Reset api dsp (float_to_double api (sampleRate s2)) (maxBufferSize s2))))
             | other \<Rightarrow> other))
      \<and> (\<forall>iid dsp. fmlookup (instances s) iid = Some (Some dsp) \<longrightarrow>
            fst (dsp_Reset api dsp (float_to_double api (sampleRate s2)) (maxBufferSize s2)) = Returns ()))
   \<and> (nam_loadModel api h jsonStr s = (True, s3) \<longrightarrow>
      sampleRate s3 = sampleRate s \<and> maxBufferSize s3 = maxBufferSize s
      \<and> (\<exists>dsp0 dsp1 dsp2.
            get_dsp api jsonStr = Returns (Some dsp0)
          \<and> dsp_Reset api dsp0 (float_to_double api (sampleRate s)) (maxBufferSize s) = (Returns (), dsp1)
          \<and> dsp_prewarm api dsp1 = (Returns (), dsp2)
          \<and> fmlookup (instances s3) h = Some (Some dsp2)))"
proof (intro conjI impI)
  assume a: "nam_setSampleRate api rate s = (Returns (), s1)"
  then have r: "reset_all api (float_to_double api rate) (maxBufferSize s) (s\<lparr>sampleRate := rate\<rparr>)
                  = (Returns (), s1)"
    by (simp add: nam_setSampleRate_def Let_def)
  from reset_all_returns(3) [OF r] have eq: "s1 = s\<lparr>sampleRate := rate, instances := instances s1\<rparr>"
    by simp
  from eq show g1: "sampleRate s1 = rate"
    by (metis globals.select_convs(3) globals.surjective globals.update_convs(1) globals.update_convs(3))
  from eq show g2: "maxBufferSize s1 = maxBufferSize s"
    by (metis globals.select_convs(4) globals.surjective globals.update_convs(1) globals.update_convs(3))
  show "\<forall>iid. fmlookup (instances s1) iid =
            (case fmlookup (instances s) iid of
               Some (Some dsp) \<Rightarrow>
                 Some (Some (snd (dsp_Reset api dsp (float_to_double api (sampleRate s1)) (maxBufferSize s1))))
             | other \<Rightarrow> other)"
    unfolding g1 g2 using reset_all_returns(1) [OF r] by simp
  show "\<forall>iid dsp. fmlookup (instances s) iid = Some (Some dsp) \<longrightarrow>
            fst (dsp_Reset api dsp (float_to_double api (sampleRate s1)) (maxBufferSize s1)) = Returns ()"
    unfolding g1 g2 using reset_all_returns(2) [OF r] by simp
next
  assume a: "nam_setMaxBufferSize api bufSize s = (Returns (), s2)"
  then have r: "reset_all api (float_to_double api (sampleRate s)) bufSize (s\<lparr>maxBufferSize := bufSize\<rparr>)
                  = (Returns (), s2)"
    by (simp add: nam_setMaxBufferSize_def Let_def)
  from reset_all_returns(3) [OF r] have eq: "s2 = s\<lparr>maxBufferSize := bufSize, instances := instances s2\<rparr>"
    by simp
  from eq show g1: "sampleRate s2 = sampleRate s"
    by (metis globals.select_convs(3) globals.surjective globals.update_convs(1) globals.update_convs(4))
  from eq show g2: "maxBufferSize s2 = bufSize"
    by (metis globals.select_convs(4) globals.surjective globals.update_convs(1) globals.update_convs(4))
  show "\<forall>iid. fmlookup (instances s2) iid =
            (case fmlookup (instances s) iid of
               Some (Some dsp) \<Rightarrow>
                 Some (Some (snd (dsp_Reset api dsp (float_to_double api (sampleRate s2)) (maxBufferSize s2))))
             | other \<Rightarrow> other)"
    unfolding g1 g2 using reset_all_returns(1) [OF r] by simp
  show "\<forall>iid dsp. fmlookup (instances s) iid = Some (Some dsp) \<longrightarrow>
            fst (dsp_Reset api dsp (float_to_double api (sampleRate s2)) (maxBufferSize s2)) = Returns ()"
    unfolding g1 g2 using reset_all_returns(2) [OF r] by simp
next
  assume a: "nam_loadModel api h jsonStr s = (True, s3)"
  then show "sampleRate s3 = sampleRate s"
    by (auto simp: nam_loadModel_def Let_def split: option.splits if_splits)
  from a show "maxBufferSize s3 = maxBufferSize s"
    by (auto simp: nam_loadModel_def Let_def split: option.splits if_splits)
  from a obtain dsp2 where b: "build_dsp api jsonStr (sampleRate s) (maxBufferSize s) = Some dsp2"
    and l: "fmlookup (instances s3) h = Some (Some dsp2)"
    by (auto simp: nam_loadModel_def Let_def split: option.splits if_splits)
  from b l show "\<exists>dsp0 dsp1 dsp2.
            get_dsp api jsonStr = Returns (Some dsp0)
          \<and> dsp_Reset api dsp0 (float_to_double api (sampleRate s)) (maxBufferSize s) = (Returns (), dsp1)
          \<and> dsp_prewarm api dsp1 = (Returns (), dsp2)
          \<and> fmlookup (instances s3) h = Some (Some dsp2)"
    by (auto simp: build_dsp_Some)
qed

text \<open>
  \<open>nam_setSampleRate(44100.0f)\<close> then \<open>nam_setMaxBufferSize(256)\<close> with an engine in instance
  0, then a load into instance 1.
\<close>

theorem config_reaches_engines_witness:
  "nam_setSampleRate demo_api 0x472C4400 demo_two
     = (Returns (), snd (nam_setSampleRate demo_api 0x472C4400 demo_two))
   \<and> nam_setMaxBufferSize demo_api 256 (snd (nam_setSampleRate demo_api 0x472C4400 demo_two))
     = (Returns (), demo_retuned)
   \<and> sampleRate demo_retuned = 0x472C4400 \<and> maxBufferSize demo_retuned = 256
   \<and> fmlookup (instances demo_retuned) 0
     = Some (Some \<lparr> dsp_rate = push_bit 32 (ucast (0x472C4400 :: float)), dsp_size = 256,
                    dsp_warm = True, dsp_loudness = None \<rparr>)
   \<and> nam_loadModel demo_api 1 ''plain'' demo_retuned
     = (True, snd (nam_loadModel demo_api 1 ''plain'' demo_retuned))
   \<and> fmlookup (instances (snd (nam_loadModel demo_api 1 ''plain'' demo_retuned))) 1
     = Some (Some \<lparr> dsp_rate = push_bit 32 (ucast (0x472C4400 :: float)), dsp_size = 256,
                    dsp_warm = True, dsp_loudness = None \<rparr>)"
proof -
  let ?s1 = "snd (nam_setSampleRate demo_api 0x472C4400 demo_two)"
  let ?s3 = "snd (nam_loadModel demo_api 1 ''plain'' demo_retuned)"
  have "fst (nam_setSampleRate demo_api 0x472C4400 demo_two) = Returns ()"
    by code_simp
  then have a: "nam_setSampleRate demo_api 0x472C4400 demo_two = (Returns (), ?s1)"
    by (simp add: prod_eq_iff)
  have "fst (nam_setMaxBufferSize demo_api 256 ?s1) = Returns ()"
    by code_simp
  then have b: "nam_setMaxBufferSize demo_api 256 ?s1 = (Returns (), demo_retuned)"
    by (simp add: prod_eq_iff demo_retuned_def)
  have "fst (nam_loadModel demo_api 1 ''plain'' demo_retuned)"
    by code_simp
  then have c: "nam_loadModel demo_api 1 ''plain'' demo_retuned = (True, ?s3)"
    by (simp add: prod_eq_iff)
  have d: "fmlookup (instances demo_retuned) 0
     = Some (Some \<lparr> dsp_rate = push_bit 32 (ucast (0x472C4400 :: float)), dsp_size = 256,
                    dsp_warm = True, dsp_loudness = None \<rparr>)"
    by code_simp
  have e: "fmlookup (instances ?s3) 1
     = Some (Some \<lparr> dsp_rate = push_bit 32 (ucast (0x472C4400 :: float)), dsp_size = 256,
                    dsp_warm = True, dsp_loudness = None \<rparr>)"
    by code_simp
  from config_reaches_engines [of demo_api "0x472C4400" demo_two ?s1 256 demo_retuned 1 "''plain''" ?s3]
    a
  have f: "sampleRate ?s1 = 0x472C4400" by simp
  from config_reaches_engines [of demo_api "0x472C4400" ?s1 ?s1 256 demo_retuned 1 "''plain''" ?s3]
    b f
  have g: "sampleRate demo_retuned = 0x472C4400 \<and> maxBufferSize demo_retuned = 256" by simp
  from a b c d e g show ?thesis by simp
qed

subsection \<open>The fast-tanh flag\<close>

text \<open>
  Only \<open>nam_loadModel\<close> writes the flag and calls the switch of the library; the loop over
  the map keeps every global but the map.
\<close>

lemma reset_all_keeps:
  assumes "reset_all api rate bufSize s = (r, s1)"
  shows "nextInstanceId s1 = nextInstanceId s" and "sampleRate s1 = sampleRate s"
    and "maxBufferSize s1 = maxBufferSize s" and "fastTanhEnabled s1 = fastTanhEnabled s"
    and "enable_fast_tanh_calls s1 = enable_fast_tanh_calls s"
  using assms by (auto simp: reset_all_def split: prod.splits)

lemma exec_call_keeps_switch:
  assumes "exec_call api c s = Some (r, s1)" and "\<forall>iid jsonStr. c \<noteq> LoadModel iid jsonStr"
  shows "fastTanhEnabled s1 = fastTanhEnabled s
       \<and> enable_fast_tanh_calls s1 = enable_fast_tanh_calls s"
proof (cases c)
  case (LoadModel iid jsonStr)
  with assms(2) show ?thesis by simp
next
  case (SetSampleRate rate)
  with assms(1) obtain res where
    "reset_all api (float_to_double api rate) (maxBufferSize s) (s\<lparr>sampleRate := rate\<rparr>) = (res, s1)"
    by (auto simp: nam_setSampleRate_def Let_def split: prod.splits)
  from reset_all_keeps(4,5) [OF this] show ?thesis by simp
next
  case (SetMaxBufferSize bufSize)
  with assms(1) obtain res where
    "reset_all api (float_to_double api (sampleRate s)) bufSize (s\<lparr>maxBufferSize := bufSize\<rparr>) = (res, s1)"
    by (auto simp: nam_setMaxBufferSize_def Let_def split: prod.splits)
  from reset_all_keeps(4,5) [OF this] show ?thesis by simp
next
  case (Process iid inp outp numFrames)
  with assms(1) show ?thesis
    by (auto simp: nam_process_def split: option.splits prod.splits)
qed (use assms(1) in \<open>auto simp: nam_createInstance_def nam_destroyInstance_def nam_unloadModel_def
      nam_reset_def Let_def split: option.splits prod.splits\<close>)

lemma loadModel_switch:
  assumes "nam_loadModel api iid jsonStr s = (ok, s1)"
  shows "fastTanhEnabled s1 = (fastTanhEnabled s \<or> fmlookup (instances s) iid \<noteq> None)"
    and "enable_fast_tanh_calls s = (if fastTanhEnabled s then 1 else 0)
           \<Longrightarrow> enable_fast_tanh_calls s1 = (if fastTanhEnabled s1 then 1 else 0)"
  using assms
  by (auto simp: nam_loadModel_def Let_def split: option.splits if_splits)

lemma exec_call_flag:
  assumes "exec_call api c s = Some (r, s1)"
  shows "fastTanhEnabled s1 =
           (fastTanhEnabled s
            \<or> (\<exists>iid jsonStr. c = LoadModel iid jsonStr \<and> fmlookup (instances s) iid \<noteq> None))"
proof (cases "\<exists>iid jsonStr. c = LoadModel iid jsonStr")
  case True
  then obtain iid jsonStr where c: "c = LoadModel iid jsonStr" by blast
  with assms obtain ok where "nam_loadModel api iid jsonStr s = (ok, s1)"
    by (auto split: prod.splits)
  from loadModel_switch(1) [OF this] c show ?thesis by simp
next
  case False
  with exec_call_keeps_switch [OF assms] show ?thesis by simp
qed

lemma exec_call_switch_calls:
  assumes "exec_call api c s = Some (r, s1)"
      and "enable_fast_tanh_calls s = (if fastTanhEnabled s then 1 else 0)"
  shows "enable_fast_tanh_calls s1 = (if fastTanhEnabled s1 then 1 else 0)"
proof (cases "\<exists>iid jsonStr. c = LoadModel iid jsonStr")
  case True
  then obtain iid jsonStr where c: "c = LoadModel iid jsonStr" by blast
  with assms obtain ok where "nam_loadModel api iid jsonStr s = (ok, s1)"
    by (auto split: prod.splits)
  from loadModel_switch(2) [OF this assms(2)] show ?thesis .
next
  case False
  with exec_call_keeps_switch [OF assms(1)] assms(2) show ?thesis by simp
qed

lemma run_Cons_Some:
  "run api (c # cs) s = Some (rs, s2) \<longleftrightarrow>
     (\<exists>r s1 rs1. exec_call api c s = Some (r, s1) \<and> run api cs s1 = Some (rs1, s2) \<and> rs = r # rs1)"
  by (auto split: option.splits)

lemma run_flag_stays:
  "run api cs s = Some (rs, s2) \<Longrightarrow> fastTanhEnabled s \<Longrightarrow> fastTanhEnabled s2"
proof (induction cs arbitrary: s rs)
  case Nil
  then show ?case by simp
next
  case (Cons c cs)
  from Cons.prems(1) obtain r s1 rs1 where
    e: "exec_call api c s = Some (r, s1)" and rest: "run api cs s1 = Some (rs1, s2)"
    unfolding run_Cons_Some by blast
  from exec_call_flag [OF e] Cons.prems(2) have "fastTanhEnabled s1" by simp
  from Cons.IH [OF rest this] show ?case .
qed

lemma run_switch_calls:
  "run api cs s = Some (rs, s2) \<Longrightarrow> enable_fast_tanh_calls s = (if fastTanhEnabled s then 1 else 0)
     \<Longrightarrow> enable_fast_tanh_calls s2 = (if fastTanhEnabled s2 then 1 else 0)"
proof (induction cs arbitrary: s rs)
  case Nil
  then show ?case by simp
next
  case (Cons c cs)
  from Cons.prems(1) obtain r s1 rs1 where
    e: "exec_call api c s = Some (r, s1)" and rest: "run api cs s1 = Some (rs1, s2)"
    unfolding run_Cons_Some by blast
  from Cons.IH [OF rest exec_call_switch_calls [OF e Cons.prems(2)]] show ?case .
qed

text \<open>
  C4, as the claim states it, fails: on the fresh module with the empty instance 0, a
  \<open>nam_loadModel\<close> whose factory throws returns false and leaves the flag set.
\<close>

theorem activation_flag_counterexample:
  "\<not> fastTanhEnabled demo_empty
   \<and> fst (nam_loadModel demo_api 0 ''throw'' demo_empty) = False
   \<and> fastTanhEnabled (snd (nam_loadModel demo_api 0 ''throw'' demo_empty))"
  by (simp add: demo_empty_eq nam_loadModel_def build_dsp_def demo_api_def)

text \<open>
  C4, amended. The flag is false at the start. A call leaves it set exactly when it was
  set before or the call is a \<open>nam_loadModel\<close> on a handle that is in the map, whether that
  load succeeds or not; so a \<open>nam_loadModel\<close> on an unknown handle does not set it and no
  other function changes it. Once set it stays set under every sequence of calls, and in
  every state reached from the start the switch of the library has been called once if
  the flag is set and never otherwise.
\<close>

theorem activation_flag_first_load_attempt:
  "\<not> fastTanhEnabled nam_init
   \<and> (exec_call api c s = Some (r, s1) \<longrightarrow>
        fastTanhEnabled s1 =
          (fastTanhEnabled s
           \<or> (\<exists>iid jsonStr. c = LoadModel iid jsonStr \<and> fmlookup (instances s) iid \<noteq> None)))
   \<and> (run api cs s = Some (rs, s2) \<and> fastTanhEnabled s \<longrightarrow> fastTanhEnabled s2)
   \<and> (run api cs nam_init = Some (rs, s3) \<longrightarrow>
        enable_fast_tanh_calls s3 = (if fastTanhEnabled s3 then 1 else 0))"
proof (intro conjI impI)
  show "\<not> fastTanhEnabled nam_init" by (simp add: nam_init_def)
next
  assume "exec_call api c s = Some (r, s1)"
  from exec_call_flag [OF this]
  show "fastTanhEnabled s1 =
          (fastTanhEnabled s
           \<or> (\<exists>iid jsonStr. c = LoadModel iid jsonStr \<and> fmlookup (instances s) iid \<noteq> None))" .
next
  assume "run api cs s = Some (rs, s2) \<and> fastTanhEnabled s"
  then show "fastTanhEnabled s2" using run_flag_stays by blast
next
  assume "run api cs nam_init = Some (rs, s3)"
  from run_switch_calls [OF this]
  show "enable_fast_tanh_calls s3 = (if fastTanhEnabled s3 then 1 else 0)"
    by (simp add: nam_init_def)
qed

text \<open>
  A failing load on a live handle sets the flag, a load on the unknown handle 5 does
  not; unloading and destroying keep it; a failing load followed by a good one calls the
  switch once.
\<close>

theorem activation_flag_first_load_attempt_witness:
  "\<not> fastTanhEnabled demo_empty
   \<and> exec_call demo_api (LoadModel 0 ''throw'') demo_empty
       = Some (RetBool False, snd (nam_loadModel demo_api 0 ''throw'' demo_empty))
   \<and> fastTanhEnabled (snd (nam_loadModel demo_api 0 ''throw'' demo_empty))
   \<and> exec_call demo_api (LoadModel 5 ''plain'') demo_empty = Some (RetBool False, demo_empty)
   \<and> fastTanhEnabled demo_loaded
   \<and> run demo_api [UnloadModel 0, DestroyInstance 0, CreateInstance] demo_loaded
       = Some ([RetVoid (Returns ()), RetVoid (Returns ()), RetInt 1],
               snd (nam_createInstance (nam_destroyInstance 0 (nam_unloadModel 0 demo_loaded))))
   \<and> fastTanhEnabled (snd (nam_createInstance (nam_destroyInstance 0 (nam_unloadModel 0 demo_loaded))))
   \<and> run demo_api [CreateInstance, LoadModel 0 ''throw'', LoadModel 0 ''loud''] nam_init
       = Some ([RetInt 0, RetBool False, RetBool True],
               snd (nam_loadModel demo_api 0 ''loud'' (snd (nam_loadModel demo_api 0 ''throw'' demo_empty))))
   \<and> enable_fast_tanh_calls
        (snd (nam_loadModel demo_api 0 ''loud'' (snd (nam_loadModel demo_api 0 ''throw'' demo_empty)))) = 1"
proof -
  let ?t = "snd (nam_loadModel demo_api 0 ''throw'' demo_empty)"
  let ?u = "snd (nam_createInstance (nam_destroyInstance 0 (nam_unloadModel 0 demo_loaded)))"
  let ?v = "snd (nam_loadModel demo_api 0 ''loud'' ?t)"
  have a: "exec_call demo_api (LoadModel 0 ''throw'') demo_empty = Some (RetBool False, ?t)"
    by (simp add: demo_empty_eq nam_loadModel_def build_dsp_def demo_api_def)
  have b: "exec_call demo_api (LoadModel 5 ''plain'') demo_empty = Some (RetBool False, demo_empty)"
    by (simp add: demo_empty_eq nam_loadModel_def)
  have c: "run demo_api [UnloadModel 0, DestroyInstance 0, CreateInstance] demo_loaded
             = Some ([RetVoid (Returns ()), RetVoid (Returns ()), RetInt 1], ?u)"
    by (simp add: demo_loaded_eq nam_unloadModel_def nam_destroyInstance_def nam_createInstance_def
        Let_def)
  have d1: "exec_call demo_api CreateInstance nam_init = Some (RetInt 0, demo_empty)"
    by (simp add: demo_empty_def nam_createInstance_def nam_init_def Let_def)
  have d2: "exec_call demo_api (LoadModel 0 ''loud'') ?t = Some (RetBool True, ?v)"
    by (simp add: demo_empty_eq nam_loadModel_def build_dsp_def demo_api_def)
  have d: "run demo_api [CreateInstance, LoadModel 0 ''throw'', LoadModel 0 ''loud''] nam_init
             = Some ([RetInt 0, RetBool False, RetBool True], ?v)"
    by (simp add: d1 a d2 del: exec_call.simps)
  have e: "fastTanhEnabled demo_loaded" "fmlookup (instances demo_empty) 0 \<noteq> None"
    "\<not> fastTanhEnabled demo_empty"
    by (simp_all add: demo_loaded_eq demo_empty_eq)
  note t = activation_flag_first_load_attempt
  from t [THEN conjunct2, THEN conjunct1, rule_format, OF a] e
  have f1: "fastTanhEnabled ?t" by simp
  from t [THEN conjunct2, THEN conjunct2, THEN conjunct1, rule_format, OF conjI [OF c e(1)]]
  have f2: "fastTanhEnabled ?u" .
  from t [THEN conjunct2, THEN conjunct2, THEN conjunct2, rule_format, OF d]
  have f3: "enable_fast_tanh_calls ?v = (if fastTanhEnabled ?v then 1 else 0)" .
  note f = f1 f2 f3
  have g: "fastTanhEnabled ?v"
    by (simp add: demo_empty_eq nam_loadModel_def build_dsp_def demo_api_def)
  from a b c d e f g show ?thesis by simp
qed

subsection \<open>Handles\<close>

text \<open>The 32-bit increment, and what a call does to the next id.\<close>

lemma wrap32_succ: "wrap32 (wrap32 x + 1) = wrap32 (x + 1)"
proof -
  have "(x + 2147483648) mod 4294967296 - 2147483648 + 1 + 2147483648
          = (x + 2147483648) mod 4294967296 + 1"
    by simp
  moreover have "((x + 2147483648) mod 4294967296 + 1) mod 4294967296
          = (x + 2147483648 + 1) mod 4294967296"
    by (rule mod_add_left_eq)
  ultimately show ?thesis
    by (simp only: wrap32_def add.assoc add.commute [of 1])
qed

lemma wrap32_inj:
  assumes "0 \<le> i" "i < 4294967296" "0 \<le> j" "j < 4294967296" "wrap32 i = wrap32 j"
  shows "i = j"
proof -
  from assms(5) have "(i + 2147483648) mod 4294967296 = (j + 2147483648) mod 4294967296"
    by (simp add: wrap32_def)
  then have "(i + 2147483648 - 2147483648) mod 4294967296
           = (j + 2147483648 - 2147483648) mod 4294967296"
    by (rule mod_diff_cong) (rule refl)
  then have "i mod 4294967296 = j mod 4294967296" by simp
  with assms(1-4) show ?thesis by simp
qed

lemma exec_call_next:
  assumes "exec_call api c s = Some (r, s1)"
  shows "nextInstanceId s1 = (if c = CreateInstance then wrap32 (nextInstanceId s + 1) else nextInstanceId s)"
proof (cases c)
  case (SetSampleRate rate)
  with assms obtain res where
    "reset_all api (float_to_double api rate) (maxBufferSize s) (s\<lparr>sampleRate := rate\<rparr>) = (res, s1)"
    by (auto simp: nam_setSampleRate_def Let_def split: prod.splits)
  from reset_all_keeps(1) [OF this] SetSampleRate show ?thesis by simp
next
  case (SetMaxBufferSize bufSize)
  with assms obtain res where
    "reset_all api (float_to_double api (sampleRate s)) bufSize (s\<lparr>maxBufferSize := bufSize\<rparr>) = (res, s1)"
    by (auto simp: nam_setMaxBufferSize_def Let_def split: prod.splits)
  from reset_all_keeps(1) [OF this] SetMaxBufferSize show ?thesis by simp
next
  case (Process iid inp outp numFrames)
  with assms show ?thesis
    by (auto simp: nam_process_def split: option.splits prod.splits)
qed (use assms in \<open>auto simp: nam_createInstance_def nam_destroyInstance_def nam_unloadModel_def
      nam_loadModel_def nam_reset_def Let_def split: option.splits prod.splits if_splits\<close>)

lemma exec_call_create:
  "exec_call api CreateInstance s = Some (r, s1) \<Longrightarrow> r = RetInt (nextInstanceId s)"
  by (auto simp: nam_createInstance_def Let_def)

lemma handles_other: "c \<noteq> CreateInstance \<Longrightarrow> handles (c # cs) (r # rs) = handles cs rs"
  by (cases c) simp_all

lemma creates_other: "c \<noteq> CreateInstance \<Longrightarrow> creates (c # cs) = creates cs"
  by (cases c) simp_all

text \<open>
  From a module whose next id is the wrapped \<open>k\<close>, the creations of a sequence return the
  wrapped \<open>k\<close>, \<open>k + 1\<close>, ... in this order, whatever the other calls are.
\<close>

lemma run_handles:
  "run api cs s = Some (rs, s2) \<Longrightarrow> nextInstanceId s = wrap32 (int k)
     \<Longrightarrow> handles cs rs = map (\<lambda>i. wrap32 (int i)) [k..<k + creates cs]
       \<and> nextInstanceId s2 = wrap32 (int (k + creates cs))"
proof (induction cs arbitrary: s rs k)
  case Nil
  then show ?case by simp
next
  case (Cons c cs)
  from Cons.prems(1) obtain r s1 rs1 where
    e: "exec_call api c s = Some (r, s1)" and rest: "run api cs s1 = Some (rs1, s2)"
    and rs: "rs = r # rs1"
    unfolding run_Cons_Some by blast
  show ?case
  proof (cases "c = CreateInstance")
    case True
    from exec_call_next [OF e] True Cons.prems(2)
    have n1: "nextInstanceId s1 = wrap32 (int (Suc k))"
      using wrap32_succ [of "int k"] by (simp add: add.commute)
    from exec_call_create [OF e [unfolded True]] Cons.prems(2)
    have r: "r = RetInt (wrap32 (int k))" by simp
    have u: "[k..<Suc (k + creates cs)] = k # [Suc k..<Suc (k + creates cs)]"
      by (rule upt_conv_Cons) simp
    from Cons.IH [OF rest n1] True r rs show ?thesis
      by (simp add: u del: upt_Suc)
  next
    case False
    from exec_call_next [OF e] False Cons.prems(2)
    have n1: "nextInstanceId s1 = wrap32 (int k)" by simp
    from Cons.IH [OF rest n1] False rs show ?thesis
      by (simp add: handles_other creates_other)
  qed
qed

text \<open>A sequence whose \<open>Process\<close> calls respect their blocks runs to its end.\<close>

lemma exec_call_defined: "block_ok c \<Longrightarrow> exec_call api c s \<noteq> None"
  by (cases c)
    (auto simp: nam_process_def memcpy_def split: option.splits prod.splits)

lemma run_defined: "list_all block_ok cs \<Longrightarrow> run api cs s \<noteq> None"
proof (induction cs arbitrary: s)
  case Nil
  then show ?case by simp
next
  case (Cons c cs)
  from Cons.prems have "block_ok c" and tl: "list_all block_ok cs" by simp_all
  from exec_call_defined [OF this(1)] obtain r s1 where e: "exec_call api c s = Some (r, s1)"
    by fastforce
  from Cons.IH [OF tl, of s1] obtain rs s2 where "run api cs s1 = Some (rs, s2)" by fastforce
  with e show ?case by simp
qed

lemma issued_eq:
  assumes "list_all block_ok cs"
  shows "issued api cs = Some (map (\<lambda>i. wrap32 (int i)) [0..<creates cs])"
proof -
  from run_defined [OF assms, of api nam_init] obtain rs s
    where r: "run api cs nam_init = Some (rs, s)" by fastforce
  have "nextInstanceId (nam_init :: 'a globals) = wrap32 (int 0)"
    by (simp add: nam_init_def wrap32_def)
  from run_handles [OF r this] r show ?thesis by (simp add: issued_def)
qed

lemma churn_block_ok: "list_all block_ok (churn k h)"
  by (induction k arbitrary: h) simp_all

lemma creates_append: "creates (as @ bs) = creates as + creates bs"
  by (induction as rule: creates.induct) simp_all

lemma creates_churn: "creates (churn k h) = k"
  by (induction k arbitrary: h) simp_all

text \<open>
  C3, as the claim states it, fails: after 2147483648 rounds of creating an instance and
  destroying it, the next \<open>nam_createInstance\<close> returns -2147483648, which is negative and
  below every handle issued before. The \<open>int\<close> counter has wrapped.
\<close>

theorem handles_wrap_counterexample:
  "map_option last (issued demo_api (churn 2147483648 0 @ [CreateInstance])) = Some (- 2147483648)"
proof -
  have ok: "list_all block_ok (churn 2147483648 0 @ [CreateInstance])"
    by (simp add: churn_block_ok)
  have c: "creates (churn 2147483648 0 @ [CreateInstance]) = Suc 2147483648"
    by (simp add: creates_append creates_churn)
  have "last (map (\<lambda>i. wrap32 (int i)) [0..<Suc 2147483648]) = wrap32 (int 2147483648)"
    by (simp del: upt_Suc add: last_map)
  also have "\<dots> = - 2147483648" by (simp add: wrap32_def)
  finally show ?thesis
    using issued_eq [OF ok, of demo_api] by (simp only: c option.map)
qed

text \<open>
  C3, amended. For every sequence of calls with at most 2147483648 \<open>nam_createInstance\<close>
  calls (and whose \<open>Process\<close> calls respect their blocks), run on the fresh module, the
  handles returned are 0, 1, 2, ... in the order of the calls: strictly increasing,
  non-negative, and never the same twice, whatever was destroyed in between.
\<close>

theorem handles_increasing:
  assumes "list_all block_ok cs" and "creates cs \<le> 2147483648"
  shows "\<exists>hs. issued api cs = Some hs
           \<and> sorted_wrt (<) hs \<and> (\<forall>h \<in> set hs. 0 \<le> h) \<and> distinct hs
           \<and> hs = map int [0..<creates cs]"
proof -
  have "map (\<lambda>i. wrap32 (int i)) [0..<creates cs] = map int [0..<creates cs]"
    using assms(2) by (intro map_cong refl wrap32_id) auto
  with issued_eq [OF assms(1), of api]
  have i: "issued api cs = Some (map int [0..<creates cs])" by simp
  have "sorted_wrt (<) (map int [0..<creates cs])"
    by (simp add: sorted_wrt_map)
  moreover have "distinct (map int [0..<creates cs])"
    by (simp add: distinct_map)
  ultimately show ?thesis using i by auto
qed

theorem handles_increasing_witness:
  "list_all block_ok [CreateInstance, CreateInstance, DestroyInstance 0, CreateInstance,
       DestroyInstance 2, CreateInstance]
   \<and> creates [CreateInstance, CreateInstance, DestroyInstance 0, CreateInstance,
       DestroyInstance 2, CreateInstance] \<le> 2147483648
   \<and> issued demo_api [CreateInstance, CreateInstance, DestroyInstance 0, CreateInstance,
       DestroyInstance 2, CreateInstance] = Some [0, 1, 2, 3]"
  using handles_increasing [of "[CreateInstance, CreateInstance, DestroyInstance 0, CreateInstance,
       DestroyInstance 2, CreateInstance]" demo_api]
  by (auto simp: upt_rec)

subsection \<open>Instance count\<close>

text \<open>
  The keys of the map change only in \<open>nam_createInstance\<close> and \<open>nam_destroyInstance\<close>: the
  loop over the map and the per-instance functions assign to entries that are there.
\<close>

lemma reset_loop_dom: "fmdom (snd (reset_loop api rate bufSize ids m)) = fmdom m"
proof (induction ids arbitrary: m)
  case Nil
  then show ?case by simp
next
  case (Cons a ids)
  show ?case
  proof (cases "fmlookup m a")
    case None
    with Cons.IH [of m] show ?thesis by simp
  next
    case (Some slot)
    show ?thesis
    proof (cases slot)
      case None
      with Some Cons.IH [of m] show ?thesis by simp
    next
      case (Some dsp)
      obtain r dsp1 where call: "dsp_Reset api dsp rate bufSize = (r, dsp1)"
        by (cases "dsp_Reset api dsp rate bufSize")
      have d: "fmdom (fmupd a (Some dsp1) m) = fmdom m"
        using \<open>fmlookup m a = Some slot\<close> by (intro finsert_absorb [THEN trans [OF fmdom_fmupd]] fmdomI)
      show ?thesis
      proof (cases r)
        case (Returns u)
        with call Some \<open>fmlookup m a = Some slot\<close> Cons.IH [of "fmupd a (Some dsp1) m"] d
        show ?thesis by simp
      next
        case Throws
        with call Some \<open>fmlookup m a = Some slot\<close> d show ?thesis by simp
      qed
    qed
  qed
qed

lemma reset_all_dom:
  assumes "reset_all api rate bufSize s = (r, s1)"
  shows "fmdom (instances s1) = fmdom (instances s)"
proof -
  obtain r1 m1 where l: "reset_loop api rate bufSize (sorted_list_of_fset (fmdom (instances s))) (instances s) = (r1, m1)"
    by (cases "reset_loop api rate bufSize (sorted_list_of_fset (fmdom (instances s))) (instances s)")
  with assms have "instances s1 = m1" by (auto simp: reset_all_def)
  moreover from reset_loop_dom [of api rate bufSize "sorted_list_of_fset (fmdom (instances s))" "instances s"] l
  have "fmdom m1 = fmdom (instances s)" by simp
  ultimately show ?thesis by simp
qed

lemma exec_call_dom:
  assumes "exec_call api c s = Some (r, s1)"
  shows "fmdom (instances s1) =
           (case c of
              CreateInstance \<Rightarrow> finsert (nextInstanceId s) (fmdom (instances s))
            | DestroyInstance iid \<Rightarrow> fmdom (instances s) |-| {|iid|}
            | _ \<Rightarrow> fmdom (instances s))"
proof (cases c)
  case CreateInstance
  with assms show ?thesis by (auto simp: nam_createInstance_def Let_def)
next
  case (DestroyInstance iid)
  with assms show ?thesis
    by (auto simp: nam_destroyInstance_def split: option.splits)
next
  case (LoadModel iid jsonStr)
  with assms show ?thesis
    by (auto simp: nam_loadModel_def Let_def fmlookup_dom_iff split: option.splits if_splits)
next
  case (UnloadModel iid)
  with assms show ?thesis
    by (auto simp: nam_unloadModel_def fmlookup_dom_iff split: option.splits)
next
  case (Process iid inp outp numFrames)
  with assms show ?thesis
    by (auto simp: nam_process_def fmlookup_dom_iff split: option.splits prod.splits)
next
  case (SetSampleRate rate)
  with assms obtain res where
    "reset_all api (float_to_double api rate) (maxBufferSize s) (s\<lparr>sampleRate := rate\<rparr>) = (res, s1)"
    by (auto simp: nam_setSampleRate_def Let_def split: prod.splits)
  from reset_all_dom [OF this] SetSampleRate show ?thesis by simp
next
  case (SetMaxBufferSize bufSize)
  with assms obtain res where
    "reset_all api (float_to_double api (sampleRate s)) bufSize (s\<lparr>maxBufferSize := bufSize\<rparr>) = (res, s1)"
    by (auto simp: nam_setMaxBufferSize_def Let_def split: prod.splits)
  from reset_all_dom [OF this] SetMaxBufferSize show ?thesis by simp
next
  case (Reset iid)
  with assms show ?thesis
    by (auto simp: nam_reset_def fmlookup_dom_iff split: option.splits prod.splits)
qed (use assms in simp_all)

lemma exec_call_dom_other:
  assumes "exec_call api c s = Some (r, s1)" and "c \<noteq> CreateInstance"
      and "\<forall>iid. c \<noteq> DestroyInstance iid"
  shows "fmdom (instances s1) = fmdom (instances s)"
  using exec_call_dom [OF assms(1)] assms(2,3) by (cases c) simp_all

lemma live_destroys_destroy:
  "live_destroys api (DestroyInstance iid # cs) s =
     (if iid |\<in>| fmdom (instances s) then 1 else 0)
     + live_destroys api cs (nam_destroyInstance iid s)"
  by simp

lemma live_destroys_other:
  assumes "exec_call api c s = Some (r, s1)" and "\<forall>iid. c \<noteq> DestroyInstance iid"
  shows "live_destroys api (c # cs) s = live_destroys api cs s1"
  using assms by (cases c) simp_all

lemma fcard_remove:
  "fcard (A |-| {|x|}) + (if x |\<in>| A then 1 else 0) = fcard A"
proof (cases "x |\<in>| A")
  case True
  from fcard_Suc_fminus1 [OF True] True show ?thesis by simp
next
  case False
  then show ?thesis by (simp add: fcard_fminus_fsingleton_if)
qed

text \<open>
  While at most 4294967296 instances have been created, the keys of the map are among
  the handles issued so far and the next handle is none of them: every creation adds an
  entry, every destruction of a live handle removes one.
\<close>

lemma run_count:
  "run api cs s = Some (rs, s2) \<Longrightarrow> nextInstanceId s = wrap32 (int k)
     \<Longrightarrow> fset (fmdom (instances s)) \<subseteq> (\<lambda>i. wrap32 (int i)) ` {..<k}
     \<Longrightarrow> k + creates cs \<le> 4294967296
     \<Longrightarrow> fcard (fmdom (instances s2)) + live_destroys api cs s
           = fcard (fmdom (instances s)) + creates cs"
proof (induction cs arbitrary: s rs k)
  case Nil
  then show ?case by simp
next
  case (Cons c cs)
  from Cons.prems(1) obtain r s1 rs1 where
    e: "exec_call api c s = Some (r, s1)" and rest: "run api cs s1 = Some (rs1, s2)"
    unfolding run_Cons_Some by blast
  consider (create) "c = CreateInstance" | (destroy) iid where "c = DestroyInstance iid"
    | (other) "c \<noteq> CreateInstance" "\<forall>iid. c \<noteq> DestroyInstance iid"
    by blast
  then show ?case
  proof cases
    case create
    from Cons.prems(4) create have k: "k < 4294967296" and
      k1: "Suc k + creates cs \<le> 4294967296" by simp_all
    have fresh: "wrap32 (int k) |\<notin>| fmdom (instances s)"
    proof
      assume "wrap32 (int k) |\<in>| fmdom (instances s)"
      with Cons.prems(3) obtain i where i: "i < k" and w: "wrap32 (int k) = wrap32 (int i)"
        by auto
      have "int k = int i"
        by (rule wrap32_inj [OF _ _ _ _ w]) (use i k in simp_all)
      with i show False by simp
    qed
    from exec_call_next [OF e] create Cons.prems(2)
    have n1: "nextInstanceId s1 = wrap32 (int (Suc k))"
      using wrap32_succ [of "int k"] by (simp add: add.commute)
    from exec_call_dom [OF e] create Cons.prems(2)
    have d1: "fmdom (instances s1) = finsert (wrap32 (int k)) (fmdom (instances s))" by simp
    have sub1: "fset (fmdom (instances s1)) \<subseteq> (\<lambda>i. wrap32 (int i)) ` {..<Suc k}"
      unfolding d1 using Cons.prems(3) by (auto simp: lessThan_Suc)
    from d1 fresh have c1: "fcard (fmdom (instances s1)) = Suc (fcard (fmdom (instances s)))"
      by (simp add: fcard_finsert_disjoint)
    have ld: "live_destroys api (c # cs) s = live_destroys api cs s1"
      by (rule live_destroys_other [OF e]) (simp add: create)
    from Cons.IH [OF rest n1 sub1 k1] c1 ld create show ?thesis by simp
  next
    case destroy
    from exec_call_next [OF e] destroy Cons.prems(2)
    have n1: "nextInstanceId s1 = wrap32 (int k)" by simp
    from exec_call_dom [OF e] destroy
    have d1: "fmdom (instances s1) = fmdom (instances s) |-| {|iid|}" by simp
    have sub1: "fset (fmdom (instances s1)) \<subseteq> (\<lambda>i. wrap32 (int i)) ` {..<k}"
      unfolding d1 using Cons.prems(3) by auto
    from Cons.prems(4) destroy have k1: "k + creates cs \<le> 4294967296" by simp
    have c1: "fcard (fmdom (instances s1)) + (if iid |\<in>| fmdom (instances s) then 1 else 0)
                = fcard (fmdom (instances s))"
      unfolding d1 by (rule fcard_remove)
    from e destroy have s1: "s1 = nam_destroyInstance iid s" by simp
    have ld: "live_destroys api (c # cs) s =
                (if iid |\<in>| fmdom (instances s) then 1 else 0) + live_destroys api cs s1"
      unfolding destroy s1 by (rule live_destroys_destroy)
    from destroy have cr: "creates (c # cs) = creates cs" by simp
    from Cons.IH [OF rest n1 sub1 k1] c1 show ?thesis
      unfolding ld cr by linarith
  next
    case other
    from exec_call_next [OF e] other(1) Cons.prems(2)
    have n1: "nextInstanceId s1 = wrap32 (int k)" by simp
    note d1 = exec_call_dom_other [OF e other]
    from Cons.prems(3) have sub1: "fset (fmdom (instances s1)) \<subseteq> (\<lambda>i. wrap32 (int i)) ` {..<k}"
      unfolding d1 .
    note cr = creates_other [OF other(1), of cs]
    from Cons.prems(4) have k1: "k + creates cs \<le> 4294967296" unfolding cr .
    note ld = live_destroys_other [OF e other(2), of cs]
    from Cons.IH [OF rest n1 sub1 k1] show ?thesis
      unfolding ld cr d1 .
  qed
qed

lemma reached_alt: "reached api cs = map_option snd (run api cs nam_init)"
  by (simp add: reached_def split: option.splits)

lemma unloadModel_dom: "fmdom (instances (nam_unloadModel iid s)) = fmdom (instances s)"
  by (auto simp: nam_unloadModel_def fmlookup_dom_iff split: option.splits)

lemma churn_round:
  assumes "nextInstanceId s = h" and "h |\<notin>| fmdom (instances s)"
  shows "nam_destroyInstance h (snd (nam_createInstance s)) = s\<lparr>nextInstanceId := wrap32 (h + 1)\<rparr>"
proof -
  from assms(2) have "fmlookup (instances s) h = None" by (rule fmdom_notD)
  then have "fmdrop h (instances s) = instances s" by (rule fmdrop_absent)
  with assms(1) show ?thesis
    by (simp add: nam_createInstance_def nam_destroyInstance_def Let_def fmdrop_fmupd_same)
qed

lemma run_snd_Cons:
  "exec_call api c s = Some (r, s1) \<Longrightarrow>
     map_option snd (run api (c # cs) s) = map_option snd (run api cs s1)"
  by (simp split: option.splits)

text \<open>
  Rounds of creating and destroying, on handles that are not in the map, leave the
  globals as they were but for the next id, and each round is one live destruction.
\<close>

lemma run_churn:
  assumes "nextInstanceId s = wrap32 (int j)"
      and "\<forall>i. j \<le> i \<and> i < j + k \<longrightarrow> wrap32 (int i) |\<notin>| fmdom (instances s)"
  shows "map_option snd (run api (churn k (wrap32 (int j)) @ cs) s)
           = map_option snd (run api cs (s\<lparr>nextInstanceId := wrap32 (int (j + k))\<rparr>))
       \<and> live_destroys api (churn k (wrap32 (int j)) @ cs) s
           = k + live_destroys api cs (s\<lparr>nextInstanceId := wrap32 (int (j + k))\<rparr>)"
  using assms
proof (induction k arbitrary: j s)
  case 0
  then have "s\<lparr>nextInstanceId := wrap32 (int (j + 0))\<rparr> = s" by simp
  then show ?case by simp
next
  case (Suc k)
  let ?h = "wrap32 (int j)"
  let ?sA = "snd (nam_createInstance s)"
  let ?sB = "s\<lparr>nextInstanceId := wrap32 (int (Suc j))\<rparr>"
  from Suc.prems(2) have fresh: "?h |\<notin>| fmdom (instances s)" by simp
  have w: "wrap32 (?h + 1) = wrap32 (int (Suc j))"
    using wrap32_succ [of "int j"] by (simp add: add.commute)
  have eA: "exec_call api CreateInstance s = Some (RetInt ?h, ?sA)"
    using Suc.prems(1) by (simp add: nam_createInstance_def Let_def)
  have sB: "nam_destroyInstance ?h ?sA = ?sB"
    using churn_round [OF Suc.prems(1) fresh] w by simp
  have eB: "exec_call api (DestroyInstance ?h) ?sA = Some (RetVoid (Returns ()), ?sB)"
    by (simp add: sB)
  have inA: "?h |\<in>| fmdom (instances ?sA)"
    using Suc.prems(1) by (simp add: nam_createInstance_def Let_def)
  have nB: "nextInstanceId ?sB = wrap32 (int (Suc j))" by simp
  have fB: "\<forall>i. Suc j \<le> i \<and> i < Suc j + k \<longrightarrow> wrap32 (int i) |\<notin>| fmdom (instances ?sB)"
    using Suc.prems(2) by simp
  note ih = Suc.IH [OF nB fB]
  have unf: "churn (Suc k) ?h @ cs
               = CreateInstance # DestroyInstance ?h # (churn k (wrap32 (int (Suc j))) @ cs)"
    by (simp add: w)
  have st: "?sB\<lparr>nextInstanceId := wrap32 (int (Suc j + k))\<rparr>
              = s\<lparr>nextInstanceId := wrap32 (int (j + Suc k))\<rparr>"
    by simp
  have "map_option snd (run api (churn (Suc k) ?h @ cs) s)
          = map_option snd (run api (churn k (wrap32 (int (Suc j))) @ cs) ?sB)"
    unfolding unf run_snd_Cons [OF eA] run_snd_Cons [OF eB] ..
  moreover
  have "live_destroys api (churn (Suc k) ?h @ cs) s
          = Suc (live_destroys api (churn k (wrap32 (int (Suc j))) @ cs) ?sB)"
  proof -
    have "live_destroys api (churn (Suc k) ?h @ cs) s
            = live_destroys api (DestroyInstance ?h # (churn k (wrap32 (int (Suc j))) @ cs)) ?sA"
      unfolding unf by (rule live_destroys_other [OF eA]) simp
    also have "\<dots> = (if ?h |\<in>| fmdom (instances ?sA) then 1 else 0)
            + live_destroys api (churn k (wrap32 (int (Suc j))) @ cs) (nam_destroyInstance ?h ?sA)"
      by (rule live_destroys_destroy)
    also have "\<dots> = Suc (live_destroys api (churn k (wrap32 (int (Suc j))) @ cs) ?sB)"
      unfolding sB using inA by simp
    finally show ?thesis .
  qed
  ultimately show ?case using ih unfolding st by simp
qed

lemma wrap32_nonzero:
  assumes "1 \<le> i" and "i < 4294967296"
  shows "wrap32 (int i) \<noteq> 0"
proof
  assume "wrap32 (int i) = 0"
  then have w: "wrap32 (int i) = wrap32 0" by (simp add: wrap32_def)
  have "int i = 0"
    by (rule wrap32_inj [OF _ _ _ _ w]) (use assms in simp_all)
  with assms(1) show False by simp
qed

text \<open>
  C6, as the claim states it, fails: create instance 0 and keep it, then create and
  destroy an instance 4294967295 times, then create once more. The counter has come
  back to 0, so the last \<open>nam_createInstance\<close> returns the live handle 0 and
  \<open>instances[0] = nullptr\<close> adds no entry: \<open>nam_getInstanceCount\<close> is 1, while the creations
  minus the destructions of live handles are 2.
\<close>

theorem instance_count_counterexample:
  "map_option nam_getInstanceCount
      (reached demo_api (CreateInstance # churn 4294967295 1 @ [CreateInstance])) = Some 1
   \<and> int (creates (CreateInstance # churn 4294967295 1 @ [CreateInstance]))
       - int (live_destroys demo_api (CreateInstance # churn 4294967295 1 @ [CreateInstance]) nam_init)
       = 2"
proof -
  let ?s = "demo_empty\<lparr>nextInstanceId := wrap32 (int (1 + 4294967295))\<rparr>"
  have one: "(1 :: int) = wrap32 (int 1)" by (simp add: wrap32_def)
  have e0: "exec_call demo_api CreateInstance nam_init = Some (RetInt 0, demo_empty)"
    by (simp add: demo_empty_def nam_createInstance_def nam_init_def Let_def)
  have n: "nextInstanceId demo_empty = wrap32 (int 1)"
    by (simp add: demo_empty_eq wrap32_def)
  have f: "\<forall>i. 1 \<le> i \<and> i < 1 + 4294967295 \<longrightarrow> wrap32 (int i) |\<notin>| fmdom (instances demo_empty)"
    using wrap32_nonzero by (simp add: demo_empty_eq)
  note c = run_churn [OF n f, of demo_api "[CreateInstance]", unfolded one [symmetric]]
  have s: "?s = demo_empty\<lparr>nextInstanceId := 0\<rparr>" by (simp add: wrap32_def)
  have last: "map_option snd (run demo_api [CreateInstance] ?s)
                = Some (demo_empty\<lparr>nextInstanceId := 1\<rparr>)"
    unfolding s by (simp add: demo_empty_eq nam_createInstance_def Let_def wrap32_def)
  have "reached demo_api (CreateInstance # churn 4294967295 1 @ [CreateInstance])
          = Some (demo_empty\<lparr>nextInstanceId := 1\<rparr>)"
    unfolding reached_alt run_snd_Cons [OF e0] using c last by simp
  then have a: "map_option nam_getInstanceCount
      (reached demo_api (CreateInstance # churn 4294967295 1 @ [CreateInstance])) = Some 1"
    by (simp add: nam_getInstanceCount_def demo_empty_eq wrap32_def fcard_finsert_if fcard_fempty)
  have l0: "live_destroys demo_api (CreateInstance # churn 4294967295 1 @ [CreateInstance]) nam_init
              = live_destroys demo_api (churn 4294967295 1 @ [CreateInstance]) demo_empty"
    by (rule live_destroys_other [OF e0]) simp
  have l1: "live_destroys demo_api [CreateInstance] ?s = 0"
    by (simp add: nam_createInstance_def Let_def)
  from c l0 l1
  have l: "live_destroys demo_api (CreateInstance # churn 4294967295 1 @ [CreateInstance]) nam_init
              = 4294967295" by simp
  have cr: "creates (CreateInstance # churn 4294967295 1 @ [CreateInstance]) = 4294967297"
    by (simp add: creates_append creates_churn)
  from a l cr show ?thesis by simp
qed

text \<open>
  The cast of the size to \<open>int\<close> wraps as well, once the map holds 2147483648 entries.
\<close>

lemma live_destroys_creates: "live_destroys api (replicate n CreateInstance) s = 0"
  by (induction n arbitrary: s) (simp_all add: nam_createInstance_def Let_def)

lemma creates_replicate: "creates (replicate n CreateInstance) = n"
  by (induction n) simp_all

lemma instance_count_cast:
  "map_option nam_getInstanceCount (reached demo_api (replicate 2147483648 CreateInstance))
     = Some (- 2147483648)"
proof -
  have ok: "list_all block_ok (replicate 2147483648 CreateInstance)"
    by (simp add: list_all_length)
  from run_defined [OF ok, of demo_api nam_init] obtain rs s
    where r: "run demo_api (replicate 2147483648 CreateInstance) nam_init = Some (rs, s)"
    by fastforce
  have n: "nextInstanceId (nam_init :: demo_dsp globals) = wrap32 (int 0)"
    by (simp add: nam_init_def wrap32_def)
  have d: "fset (fmdom (instances (nam_init :: demo_dsp globals))) \<subseteq> (\<lambda>i. wrap32 (int i)) ` {..<0}"
    by (simp add: nam_init_def)
  have b: "0 + creates (replicate 2147483648 CreateInstance) \<le> 4294967296"
    by (simp add: creates_replicate)
  from run_count [OF r n d b]
  have "fcard (fmdom (instances s)) = 2147483648"
    by (simp add: nam_init_def live_destroys_creates creates_replicate)
  then have "nam_getInstanceCount s = - 2147483648"
    by (simp add: nam_getInstanceCount_def wrap32_def)
  with r show ?thesis by (simp add: reached_def)
qed

text \<open>
  C6, amended. For every sequence of calls (whose \<open>Process\<close> calls respect their blocks)
  with at most 4294967296 \<open>nam_createInstance\<close> calls, run on the fresh module, if the
  number of creations minus the number of \<open>nam_destroyInstance\<close> calls on a handle that
  was in the map is below 2147483648, then \<open>nam_getInstanceCount\<close> returns that
  difference. \<open>nam_unloadModel\<close> never changes the count.
\<close>

theorem instance_count:
  assumes "list_all block_ok cs" and "creates cs \<le> 4294967296"
      and "int (creates cs) - int (live_destroys api cs nam_init) < 2147483648"
  shows "(\<exists>s. reached api cs = Some s
            \<and> nam_getInstanceCount s = int (creates cs) - int (live_destroys api cs nam_init))
       \<and> nam_getInstanceCount (nam_unloadModel iid s') = nam_getInstanceCount s'"
proof
  from run_defined [OF assms(1), of api nam_init] obtain rs s
    where r: "run api cs nam_init = Some (rs, s)" by fastforce
  have n: "nextInstanceId (nam_init :: 'a globals) = wrap32 (int 0)"
    by (simp add: nam_init_def wrap32_def)
  have d: "fset (fmdom (instances (nam_init :: 'a globals))) \<subseteq> (\<lambda>i. wrap32 (int i)) ` {..<0}"
    by (simp add: nam_init_def)
  from assms(2) have b: "0 + creates cs \<le> 4294967296" by simp
  from run_count [OF r n d b]
  have "fcard (fmdom (instances s)) + live_destroys api cs nam_init = creates cs"
    by (simp add: nam_init_def)
  then have c: "int (fcard (fmdom (instances s))) = int (creates cs) - int (live_destroys api cs nam_init)"
    by linarith
  with assms(3) have "wrap32 (int (fcard (fmdom (instances s)))) = int (fcard (fmdom (instances s)))"
    by (intro wrap32_id) simp_all
  with c have "nam_getInstanceCount s = int (creates cs) - int (live_destroys api cs nam_init)"
    by (simp add: nam_getInstanceCount_def)
  with r show "\<exists>s. reached api cs = Some s
            \<and> nam_getInstanceCount s = int (creates cs) - int (live_destroys api cs nam_init)"
    by (simp add: reached_def)
next
  show "nam_getInstanceCount (nam_unloadModel iid s') = nam_getInstanceCount s'"
    by (simp add: nam_getInstanceCount_def unloadModel_dom)
qed

text \<open>
  Three creations, a load and an unload, and three destructions of which one is on a
  live handle.
\<close>

theorem instance_count_witness:
  "list_all block_ok [CreateInstance, CreateInstance, LoadModel 0 ''loud'', UnloadModel 0,
      DestroyInstance 0, DestroyInstance 0, DestroyInstance 7, CreateInstance]
   \<and> creates [CreateInstance, CreateInstance, LoadModel 0 ''loud'', UnloadModel 0,
      DestroyInstance 0, DestroyInstance 0, DestroyInstance 7, CreateInstance] = 3
   \<and> live_destroys demo_api [CreateInstance, CreateInstance, LoadModel 0 ''loud'', UnloadModel 0,
      DestroyInstance 0, DestroyInstance 0, DestroyInstance 7, CreateInstance] nam_init = 1
   \<and> map_option nam_getInstanceCount (reached demo_api [CreateInstance, CreateInstance,
      LoadModel 0 ''loud'', UnloadModel 0, DestroyInstance 0, DestroyInstance 0, DestroyInstance 7,
      CreateInstance]) = Some 2
   \<and> nam_getInstanceCount (nam_unloadModel 0 demo_loaded) = nam_getInstanceCount demo_loaded"
proof -
  let ?cs = "[CreateInstance, CreateInstance, LoadModel 0 ''loud'', UnloadModel 0,
      DestroyInstance 0, DestroyInstance 0, DestroyInstance 7, CreateInstance]"
  have a: "list_all block_ok ?cs" by simp
  have b: "creates ?cs = 3" by simp
  have c: "live_destroys demo_api ?cs nam_init = 1" by code_simp
  from instance_count [of ?cs demo_api 0 demo_loaded] a b c show ?thesis
    by auto
qed

end
